theory Spec2Isabelle
  imports Complex_Main
begin

section \<open>JavaScript strings and numbers\<close>

text \<open>
  A JavaScript string is a sequence of UTF-16 code units; \<open>length\<close>, \<open>substring\<close> and
  \<open>trim\<close> count code units. Code units are natural numbers here, and \<open>asc\<close> turns an
  ASCII literal into its code units. Numbers that reach the widgets come from JSON, so they
  are finite doubles; every finite double is a rational, so a number is a \<open>rat\<close>.
  \<open>Math.floor\<close>, \<open>%\<close>, \<open>Math.max\<close> and \<open>toFixed\<close> are exact on the values they
  receive; \<open>/\<close> and \<open>*\<close> round their result to a double. Counts and identifiers are
  integers.
\<close>

type_synonym jsstring = "nat list"

definition asc :: "string \<Rightarrow> jsstring" where
  "asc s = map of_char s"

text \<open>Truthiness of an optional string: \<open>undefined\<close>, \<open>null\<close> and \<open>''\<close> are falsy.\<close>

fun truthy_str :: "jsstring option \<Rightarrow> bool" where
  "truthy_str None = False"
| "truthy_str (Some s) = (s \<noteq> [])"

section \<open>Data model (types/api.ts)\<close>

datatype movie_type = Movie | TvShow

record genre =
  genre_id :: int
  name :: jsstring
  movies_count :: "int option"

record movie =
  movie_id :: int
  title :: jsstring
  title_english :: "jsstring option"
  release_date :: jsstring
  mtype :: movie_type
  description :: jsstring
  country :: jsstring
  poster_url :: "jsstring option"
  poster_image :: "jsstring option"
  avg_rating :: "rat option"
  ratings_count :: "int option"
  genres :: "genre list"

record homepage_data =
  top_movies :: "movie list"
  popular_genres :: "genre list"
  new_releases :: "movie list"
  message :: "jsstring option"

section \<open>HomePage: the fetch lifecycle\<close>

text \<open>
  The three \<open>useState\<close> cells of \<open>HomePage\<close> are \<open>data\<close>, \<open>loading\<close> and \<open>error\<close>.
  The network is not React state: \<open>issued\<close> counts the calls of
  \<open>homepageAPI.getHomepageData\<close> made so far and \<open>pending\<close> lists the calls whose promise
  has not settled yet, each named by its position in the order of issue.
\<close>

record page_state =
  data :: "homepage_data option"
  loading :: bool
  error :: "jsstring option"
  issued :: nat
  pending :: "nat list"

text \<open>The three ways an axios request fails, as the response interceptor of api.ts tells them apart.\<close>

datatype api_error = ResponseError nat | RequestError | SetupError

datatype outcome = Resolved homepage_data | Rejected api_error


text \<open>The message of \<open>setError\<close> in the \<open>catch\<close> block, as UTF-16 code units.\<close>

definition ERROR_MESSAGE :: jsstring where
  "ERROR_MESSAGE =
    [1054, 1096, 1080, 1073, 1082, 1072, 32, 1079, 1072, 1075, 1088, 1091, 1079, 1082, 1080, 32,
     1076, 1072, 1085, 1085, 1099, 1093, 46, 32, 1055, 1088, 1086, 1074, 1077, 1088, 1100, 1090,
     1077, 32, 1087, 1086, 1076, 1082, 1083, 1102, 1095, 1077, 1085, 1080, 1077, 32, 1082, 32,
     1089, 1077, 1088, 1074, 1077, 1088, 1091, 46]"

text \<open>
  \<open>fetchHomepageData\<close> up to its \<open>await\<close>: \<open>setLoading(true)\<close>, then the request is sent.
\<close>

definition fetch_begin :: "page_state \<Rightarrow> page_state" where
  "fetch_begin s = s\<lparr>loading := True, issued := Suc (issued s), pending := pending s @ [issued s]\<rparr>"

text \<open>
  \<open>fetchHomepageData\<close> after its \<open>await\<close>, for the call \<open>tok\<close>: the \<open>try\<close> branch on a
  resolved promise, the \<open>catch\<close> branch on a rejected one, and \<open>finally\<close> in both.
\<close>

fun fetch_settle :: "nat \<Rightarrow> outcome \<Rightarrow> page_state \<Rightarrow> page_state" where
  "fetch_settle tok (Resolved d) s =
     s\<lparr>data := Some d, error := None, loading := False, pending := removeAll tok (pending s)\<rparr>"
| "fetch_settle tok (Rejected e) s =
     s\<lparr>error := Some ERROR_MESSAGE, loading := False, pending := removeAll tok (pending s)\<rparr>"

text \<open>
  What \<open>HomePage\<close> returns: the spinner while \<open>loading\<close>, else the alert with the message
  and the retry button when \<open>error\<close> is truthy, else the page built from \<open>data\<close>.
\<close>

datatype page_view = Spinner | ErrorAlert jsstring | Page "homepage_data option"

definition view :: "page_state \<Rightarrow> page_view" where
  "view s =
     (if loading s then Spinner
      else if truthy_str (error s) then ErrorAlert (the (error s))
      else Page (data s))"

text \<open>
  The retry button exists only inside the alert; its \<open>onClick\<close> is \<open>fetchHomepageData\<close>.
  \<open>None\<close>: the button is not on the screen.
\<close>

definition click_retry :: "page_state \<Rightarrow> page_state option" where
  "click_retry s = (case view s of ErrorAlert m \<Rightarrow> Some (fetch_begin s) | _ \<Rightarrow> None)"


text \<open>
  The four counters of the statistics card: \<open>data?.xs?.length || 0\<close> for each list, and
  for the last one the sum of the first and the third.
\<close>

definition opt_length :: "homepage_data option \<Rightarrow> (homepage_data \<Rightarrow> 'a list) \<Rightarrow> nat" where
  "opt_length d f = (case d of None \<Rightarrow> 0 | Some x \<Rightarrow> length (f x))"

definition counters :: "homepage_data option \<Rightarrow> nat \<times> nat \<times> nat \<times> nat" where
  "counters d =
     (opt_length d top_movies, opt_length d popular_genres, opt_length d new_releases,
      opt_length d top_movies + opt_length d new_releases)"

section \<open>The browser\<close>

text \<open>
  What the engine and its date functions give: the clock, \<open>new Date(s).getTime()\<close> in
  milliseconds (\<open>None\<close> for an invalid date, whose time is NaN),
  \<open>new Date(s).getFullYear()\<close>, \<open>toLocaleDateString\<close> as \<open>formatDate\<close> calls it, the
  longest string the engine builds, the largest number of arguments a call takes, and the
  text \<open>Number::toString\<close> gives a number beyond \<open>2^53\<close> in magnitude (the shortest
  digits that identify the double, in exponent form from \<open>10^21\<close> on).
\<close>

record browser_env =
  now_ms :: int
  parse_ms :: "jsstring \<Rightarrow> int option"
  full_year :: "jsstring \<Rightarrow> int option"
  locale_date :: "jsstring \<Rightarrow> jsstring"
  max_string_length :: nat
  max_arguments :: nat
  big_number_text :: "rat \<Rightarrow> jsstring"

section \<open>Library functions the widgets call\<close>

datatype js_error = RangeError

text \<open>
  \<open>String.prototype.repeat\<close> throws a RangeError on a negative count and when the result
  would be longer than the engine's longest string; so does \<open>+=\<close> on strings.
\<close>

definition js_repeat :: "browser_env \<Rightarrow> jsstring \<Rightarrow> int \<Rightarrow> js_error + jsstring" where
  "js_repeat env s count =
     (if count < 0 \<or> max_string_length env < length s * nat count then Inl RangeError
      else Inr (concat (replicate (nat count) s)))"

definition js_append :: "browser_env \<Rightarrow> jsstring \<Rightarrow> jsstring \<Rightarrow> js_error + jsstring" where
  "js_append env a b =
     (if max_string_length env < length a + length b then Inl RangeError else Inr (a @ b))"

text \<open>\<open>x % 1\<close>: the remainder has the sign of the dividend, so it is \<open>x\<close> minus \<open>x\<close> truncated.\<close>

definition js_rem1 :: "rat \<Rightarrow> rat" where
  "js_rem1 x = (if 0 \<le> x then x - of_int \<lfloor>x\<rfloor> else x - of_int \<lceil>x\<rceil>)"

text \<open>Decimal digits of a natural number.\<close>

fun show_nat :: "nat \<Rightarrow> jsstring" where
  "show_nat n = (if n < 10 then [48 + n] else show_nat (n div 10) @ [48 + n mod 10])"

declare show_nat.simps [simp del]

definition show_int :: "int \<Rightarrow> jsstring" where
  "show_int i = (if i < 0 then 45 # show_nat (nat (- i)) else show_nat (nat i))"

text \<open>
  An integer-valued number printed as text (\<open>Number::toString\<close>, which React applies to a
  number child): its decimal digits up to \<open>2^53\<close> in magnitude, where every integer is a
  double of its own; beyond, what the engine prints.
\<close>

definition js_number_text :: "browser_env \<Rightarrow> int \<Rightarrow> jsstring" where
  "js_number_text env n = (if \<bar>n\<bar> \<le> 2 ^ 53 then show_int n else big_number_text env (of_int n))"

text \<open>
  \<open>x.toFixed(1)\<close>: from \<open>10^21\<close> on in magnitude it is \<open>Number::toString\<close>; below, with
  \<open>n\<close> the integer nearest to \<open>10 * \<bar>x\<bar>\<close> (the larger one on a tie), the digits of
  \<open>n\<close> with a point before the last, after a minus sign when \<open>x < 0\<close>.
\<close>

definition toFixed1 :: "browser_env \<Rightarrow> rat \<Rightarrow> jsstring" where
  "toFixed1 env x =
     (if 10 ^ 21 \<le> \<bar>x\<bar> then big_number_text env x
      else (let n = nat \<lfloor>\<bar>x\<bar> * 10 + 1 / 2\<rfloor>
            in (if x < 0 then asc ''-'' else []) @ show_nat (n div 10) @ asc ''.'' @
               show_nat (n mod 10)))"

section \<open>Binary64 arithmetic\<close>

text \<open>
  \<open>/\<close> and \<open>*\<close> on numbers give the exact result rounded to the nearest double, ties to
  the even significand. \<open>fl64\<close> is that rounding for the normal range (53-bit
  significands at any exponent); the quotients and products of the widgets, taken from
  integers of at most 53 bits, never leave that range. \<open>bits n\<close> is the length of \<open>n\<close> in
  binary, and \<open>binade x\<close> the exponent \<open>e\<close> with \<open>2^e \<le> x < 2^(e+1)\<close>.
\<close>

fun bits :: "nat \<Rightarrow> nat" where
  "bits n = (if n = 0 then 0 else Suc (bits (n div 2)))"

declare bits.simps [simp del]

definition binade :: "rat \<Rightarrow> int" where
  "binade x =
     (if 1 \<le> x then int (bits (nat \<lfloor>x\<rfloor>)) - 1 else - int (bits (nat (\<lceil>1 / x\<rceil> - 1))))"

definition round_half_even :: "rat \<Rightarrow> int" where
  "round_half_even y =
     (let f = \<lfloor>y\<rfloor>; d = y - of_int f
      in if d < 1 / 2 then f else if 1 / 2 < d then f + 1 else if even f then f else f + 1)"

definition fl64 :: "rat \<Rightarrow> rat" where
  "fl64 x =
     (if x = 0 then 0
      else (let ulp = 2 powi (binade \<bar>x\<bar> - 52)
            in sgn x * (of_int (round_half_even (\<bar>x\<bar> / ulp)) * ulp)))"

section \<open>TopMoviesWidget\<close>

definition STAR :: jsstring where
  "STAR = [11088]"

definition renderStars :: "browser_env \<Rightarrow> rat \<Rightarrow> js_error + jsstring" where
  "renderStars env rating =
     (let fullStars = \<lfloor>rating\<rfloor>;
          hasHalfStar = (1 / 2 \<le> js_rem1 rating)
      in case js_repeat env STAR fullStars of
           Inl e \<Rightarrow> Inl e
         | Inr stars \<Rightarrow> if hasHalfStar then js_append env stars STAR else Inr stars)"

definition ASSET_ORIGIN :: jsstring where
  "ASSET_ORIGIN = asc ''http://localhost:8000''"

definition PLACEHOLDER_TOP :: jsstring where
  "PLACEHOLDER_TOP = asc ''https://via.placeholder.com/60x90/6c757d/ffffff?text=No+Image''"

definition PLACEHOLDER_NEW :: jsstring where
  "PLACEHOLDER_NEW = asc ''https://via.placeholder.com/150x225/6c757d/ffffff?text=No+Image''"

text \<open>
  \<open>getMovieImage\<close> is written twice, once in each movie widget, with the same body up to
  the placeholder; the placeholder is the parameter here. A string parsed from the response
  is shorter than the response text that held it by more than the 21 code units of the
  origin, so the template literal stays within the engine's longest string.
\<close>

definition getMovieImage :: "jsstring \<Rightarrow> movie \<Rightarrow> jsstring" where
  "getMovieImage placeholder m =
     (if truthy_str (poster_image m) then ASSET_ORIGIN @ the (poster_image m)
      else if truthy_str (poster_url m) then the (poster_url m)
      else placeholder)"

text \<open>
  The slot \<open>{movie.avg_rating && (...)}\<close>: nothing for a missing rating, the text \<open>0\<close> for
  the rating 0 (React prints a number that \<open>&&\<close> lets through), else the stars and the label.
\<close>

datatype rating_slot = NoRating | BareZero | RatingBlock jsstring jsstring

text \<open>The text of \<open>{movie.avg_rating.toFixed(1)} ({movie.ratings_count})\<close>.\<close>

definition rating_label :: "browser_env \<Rightarrow> rat \<Rightarrow> int option \<Rightarrow> jsstring" where
  "rating_label env r c =
     toFixed1 env r @ asc '' ('' @ (case c of None \<Rightarrow> [] | Some n \<Rightarrow> js_number_text env n) @
     asc '')''"

definition rating_of :: "browser_env \<Rightarrow> movie \<Rightarrow> js_error + rating_slot" where
  "rating_of env m =
     (case avg_rating m of
        None \<Rightarrow> Inr NoRating
      | Some r \<Rightarrow>
          if r = 0 then Inr BareZero
          else (case renderStars env r of
                  Inl e \<Rightarrow> Inl e
                | Inr stars \<Rightarrow> Inr (RatingBlock stars (rating_label env r (ratings_count m)))))"

text \<open>\<open>{movie.title_english && (...)}\<close> is nothing unless the string is truthy.\<close>

definition subtitle_of :: "(jsstring \<Rightarrow> jsstring) \<Rightarrow> movie \<Rightarrow> jsstring option" where
  "subtitle_of f m = (if truthy_str (title_english m) then Some (f (the (title_english m))) else None)"

record top_item =
  rank :: nat
  t_image :: jsstring
  t_title :: jsstring
  t_subtitle :: "jsstring option"
  t_year :: "int option"
  t_country :: jsstring
  t_rating :: rating_slot
  t_genres :: "jsstring list"

text \<open>One \<open>ListGroup.Item\<close> of the ranked list, for the movie at \<open>index\<close>.\<close>

definition renderTopItem :: "browser_env \<Rightarrow> nat \<Rightarrow> movie \<Rightarrow> js_error + top_item" where
  "renderTopItem env index m =
     (case rating_of env m of
        Inl e \<Rightarrow> Inl e
      | Inr slot \<Rightarrow>
          Inr \<lparr>rank = index + 1,
               t_image = getMovieImage PLACEHOLDER_TOP m,
               t_title = title m,
               t_subtitle = subtitle_of (\<lambda>t. t) m,
               t_year = full_year env (release_date m),
               t_country = country m,
               t_rating = slot,
               t_genres = map name (take 3 (genres m))\<rparr>)"

text \<open>\<open>xs.map((movie, index) => ...)\<close> from \<open>index\<close> on: the first throw ends the rendering.\<close>

fun render_top_from :: "browser_env \<Rightarrow> nat \<Rightarrow> movie list \<Rightarrow> js_error + top_item list" where
  "render_top_from env index [] = Inr []"
| "render_top_from env index (m # ms) =
     (case renderTopItem env index m of
        Inl e \<Rightarrow> Inl e
      | Inr v \<Rightarrow> (case render_top_from env (Suc index) ms of
                    Inl e \<Rightarrow> Inl e
                  | Inr vs \<Rightarrow> Inr (v # vs)))"

text \<open>The items of the widget: \<open>movies.slice(0, 8).map(...)\<close>.\<close>

definition TopMoviesWidget :: "browser_env \<Rightarrow> movie list \<Rightarrow> js_error + top_item list" where
  "TopMoviesWidget env movies = render_top_from env 0 (take 8 movies)"

section \<open>NewReleasesWidget\<close>

definition MS_PER_DAY :: int where
  "MS_PER_DAY = 1000 * 60 * 60 * 24"

text \<open>\<open>getDaysAgo\<close>; \<open>None\<close> is NaN, the result for an invalid date.\<close>

definition getDaysAgo :: "browser_env \<Rightarrow> jsstring \<Rightarrow> int option" where
  "getDaysAgo env dateString =
     (case parse_ms env dateString of
        None \<Rightarrow> None
      | Some releaseDate \<Rightarrow>
          (let diffTime = \<bar>now_ms env - releaseDate\<bar>
           in Some \<lceil>(of_int diffTime :: rat) / of_int MS_PER_DAY\<rceil>))"

definition getTypeIcon :: "movie_type \<Rightarrow> jsstring" where
  "getTypeIcon t = (if t = Movie then [55356, 57260] else [55357, 56570])"

definition getTypeText :: "movie_type \<Rightarrow> jsstring" where
  "getTypeText t =
     (if t = Movie then [1060, 1080, 1083, 1100, 1084] else [1057, 1077, 1088, 1080, 1072, 1083])"

text \<open>\<open>s.length > n ? `${s.substring(0, n)}...` : s\<close>\<close>

definition truncate_to :: "nat \<Rightarrow> jsstring \<Rightarrow> jsstring" where
  "truncate_to n s = (if length s > n then take n s @ asc ''...'' else s)"

record release_item =
  r_image :: jsstring
  r_new_badge :: bool
  r_type_icon :: jsstring
  r_type_text :: jsstring
  r_title :: jsstring
  r_subtitle :: "jsstring option"
  r_date :: jsstring
  r_genres :: "jsstring list"

text \<open>One card of the grid; \<open>daysAgo <= 30\<close> is false when \<open>daysAgo\<close> is NaN.\<close>

definition renderReleaseItem :: "browser_env \<Rightarrow> movie \<Rightarrow> release_item" where
  "renderReleaseItem env m =
     (let daysAgo = getDaysAgo env (release_date m)
      in \<lparr>r_image = getMovieImage PLACEHOLDER_NEW m,
          r_new_badge = (case daysAgo of None \<Rightarrow> False | Some d \<Rightarrow> d \<le> 30),
          r_type_icon = getTypeIcon (mtype m),
          r_type_text = getTypeText (mtype m),
          r_title = truncate_to 20 (title m),
          r_subtitle = subtitle_of (truncate_to 25) m,
          r_date = locale_date env (release_date m),
          r_genres = map name (take 2 (genres m))\<rparr>)"

text \<open>The cards of the widget: \<open>movies.slice(0, 6).map(...)\<close>.\<close>

definition NewReleasesWidget :: "browser_env \<Rightarrow> movie list \<Rightarrow> release_item list" where
  "NewReleasesWidget env movies = map (renderReleaseItem env) (take 6 movies)"

section \<open>PopularGenresWidget\<close>

text \<open>\<open>genre.movies_count || 0\<close>\<close>

definition count_or_0 :: "genre \<Rightarrow> int" where
  "count_or_0 g = (case movies_count g of None \<Rightarrow> 0 | Some c \<Rightarrow> c)"

text \<open>
  \<open>Math.max(...xs)\<close>: the spread passes every element as an argument, and a call with
  more arguments than the engine takes throws a RangeError. \<open>None\<close> is \<open>-Infinity\<close>, the
  maximum of no numbers.
\<close>

fun Math_max :: "int list \<Rightarrow> int option" where
  "Math_max [] = None"
| "Math_max (x # xs) = (case Math_max xs of None \<Rightarrow> Some x | Some m \<Rightarrow> Some (max x m))"

definition maxMoviesCount :: "browser_env \<Rightarrow> genre list \<Rightarrow> js_error + int option" where
  "maxMoviesCount env gs =
     (if max_arguments env < length gs then Inl RangeError
      else Inr (Math_max (map count_or_0 gs)))"

text \<open>\<open>maxMoviesCount > 0 ? ((genre.movies_count || 0) / maxMoviesCount) * 100 : 0\<close>\<close>

definition progressPercent :: "int option \<Rightarrow> genre \<Rightarrow> rat" where
  "progressPercent mx g =
     (case mx of
        None \<Rightarrow> 0
      | Some m \<Rightarrow> if m > 0 then fl64 (fl64 (of_int (count_or_0 g) / of_int m) * 100) else 0)"

definition getProgressVariant :: "nat \<Rightarrow> jsstring" where
  "getProgressVariant index =
     [asc ''primary'', asc ''success'', asc ''warning'', asc ''info'', asc ''secondary''] ! (index mod 5)"

text \<open>The text after the percentage, \<open>% \<close> and three Russian words, as code units.\<close>

definition PERCENT_SUFFIX :: jsstring where
  "PERCENT_SUFFIX = [37, 32, 1086, 1090, 32, 1090, 1086, 1087, 45, 1078, 1072, 1085, 1088, 1072]"

record genre_item =
  g_name :: jsstring
  g_count :: int
  g_variant :: jsstring
  g_progress :: rat
  g_percent_text :: jsstring

text \<open>
  One row of the progress list (the icon, looked up by the lower-cased name, is left out).
  The maximum is taken once, over the whole \<open>genres\<close> prop, before the rows are cut to ten.
\<close>

definition renderGenreItem :: "browser_env \<Rightarrow> int option \<Rightarrow> nat \<Rightarrow> genre \<Rightarrow> genre_item" where
  "renderGenreItem env mx index g =
     \<lparr>g_name = name g,
      g_count = count_or_0 g,
      g_variant = getProgressVariant index,
      g_progress = progressPercent mx g,
      g_percent_text = toFixed1 env (progressPercent mx g) @ PERCENT_SUFFIX\<rparr>"

definition PopularGenresWidget :: "browser_env \<Rightarrow> genre list \<Rightarrow> js_error + genre_item list" where
  "PopularGenresWidget env gs =
     (case maxMoviesCount env gs of
        Inl e \<Rightarrow> Inl e
      | Inr mx \<Rightarrow>
          Inr (map (\<lambda>(index, g). renderGenreItem env mx index g) (enumerate 0 (take 10 gs))))"

section \<open>The page built from the fetched data\<close>

record home_view =
  top_items :: "top_item list"
  genre_items :: "genre_item list"
  release_items :: "release_item list"
  stats :: "nat \<times> nat \<times> nat \<times> nat"

text \<open>
  The last \<open>return\<close> of \<open>HomePage\<close>: each widget gets \<open>data?.xs || []\<close>. There is no
  error boundary, so the first widget that throws takes the page with it.
\<close>

definition opt_list :: "homepage_data option \<Rightarrow> (homepage_data \<Rightarrow> 'a list) \<Rightarrow> 'a list" where
  "opt_list d f = (case d of None \<Rightarrow> [] | Some x \<Rightarrow> f x)"

definition render_home :: "browser_env \<Rightarrow> homepage_data option \<Rightarrow> js_error + home_view" where
  "render_home env d =
     (case TopMoviesWidget env (opt_list d top_movies) of
        Inl e \<Rightarrow> Inl e
      | Inr tops \<Rightarrow>
          (case PopularGenresWidget env (opt_list d popular_genres) of
             Inl e \<Rightarrow> Inl e
           | Inr rows \<Rightarrow>
               Inr \<lparr>top_items = tops,
                    genre_items = rows,
                    release_items = NewReleasesWidget env (opt_list d new_releases),
                    stats = counters d\<rparr>))"

section \<open>SearchBar\<close>

text \<open>The code units \<open>trim\<close> removes: WhiteSpace and LineTerminator of ECMAScript.\<close>

definition is_ws :: "nat \<Rightarrow> bool" where
  "is_ws c \<longleftrightarrow>
     c \<in> {9, 10, 11, 12, 13, 32, 160, 5760, 8232, 8233, 8239, 8287, 12288, 65279}
     \<or> (8192 \<le> c \<and> c \<le> 8202)"

definition trim :: "jsstring \<Rightarrow> jsstring" where
  "trim s = rev (dropWhile is_ws (rev (dropWhile is_ws s)))"

record search_state =
  searchQuery :: jsstring
  isSearching :: bool

record search_params =
  q :: "jsstring option"
  genre_filter :: "jsstring option"
  type_filter :: "movie_type option"
  year_filter :: "int option"

text \<open>
  \<open>handleSearch\<close> up to its \<open>await\<close>: the new state and the requests handed to
  \<open>homepageAPI.searchMovies\<close>. An empty string is falsy, so \<open>!searchQuery.trim()\<close>
  returns at once.
\<close>

definition handleSearch :: "search_state \<Rightarrow> search_state \<times> search_params list" where
  "handleSearch s =
     (if trim (searchQuery s) = [] then (s, [])
      else (s\<lparr>isSearching := True\<rparr>,
            [\<lparr>q = Some (trim (searchQuery s)), genre_filter = None, type_filter = None,
              year_filter = None\<rparr>]))"

text \<open>\<open>handleSearch\<close> after its \<open>await\<close>: \<open>finally\<close> clears the flag on either outcome.\<close>

definition search_settle :: "search_state \<Rightarrow> search_state" where
  "search_settle s = s\<lparr>isSearching := False\<rparr>"

section \<open>The spec's day-delta\<close>


text \<open>
  The number of glyphs the spec gives a rating: its floor, and one more when the
  fractional part is at least one half.
\<close>

definition spec_star_count :: "rat \<Rightarrow> nat" where
  "spec_star_count r = nat \<lfloor>r\<rfloor> + (if 1 / 2 \<le> frac r then 1 else 0)"

text \<open>
  The amended percentage of a genre, in exact arithmetic: 100 times its count over the
  largest count among all the genres given, and 0 when that is not positive.
\<close>

definition exact_percent :: "genre list \<Rightarrow> genre \<Rightarrow> rat" where
  "exact_percent gs g =
     (if 0 < Max (set (map count_or_0 gs))
      then 100 * of_int (count_or_0 g) / of_int (Max (set (map count_or_0 gs)))
      else 0)"

text \<open>A rating on which \<open>renderStars\<close> throws: negative, or with more glyphs than a string holds.\<close>

abbreviation bad_rating :: "browser_env \<Rightarrow> movie \<Rightarrow> bool" where
  "bad_rating env m \<equiv>
     \<exists>r. avg_rating m = Some r \<and> (r < 0 \<or> max_string_length env < spec_star_count r)"

section \<open>Sample inputs\<close>

text \<open>
  A browser whose clock reads 2025-11-03T00:00Z and which parses the one date
  \<open>2025-10-20\<close>, fourteen days earlier; its strings hold up to \<open>2^29 - 24\<close> code units,
  its calls take up to 65535 arguments, and the only number beyond \<open>2^53\<close> it is asked to
  print is \<open>10^21\<close>.
\<close>

definition sample_env :: browser_env where
  "sample_env =
     \<lparr>now_ms = 1762128000000,
      parse_ms = (\<lambda>s. if s = asc ''2025-10-20'' then Some 1760918400000 else None),
      full_year = (\<lambda>s. if s = asc ''2025-10-20'' then Some 2025 else None),
      locale_date = (\<lambda>s. s),
      max_string_length = 536870888,
      max_arguments = 65535,
      big_number_text = (\<lambda>x. asc ''1e+21'')\<rparr>"

definition bare_movie :: movie where
  "bare_movie =
     \<lparr>movie_id = 1, title = asc ''Solaris'', title_english = None,
      release_date = asc ''2025-10-20'', mtype = Movie, description = [], country = asc ''USSR'',
      poster_url = None, poster_image = None, avg_rating = None, ratings_count = None,
      genres = []\<rparr>"

definition rated_movie :: movie where
  "rated_movie = bare_movie\<lparr>avg_rating := Some (9 / 2), ratings_count := Some 120\<rparr>"



definition zero_rated_movie :: movie where
  "zero_rated_movie = bare_movie\<lparr>avg_rating := Some 0, ratings_count := Some 3\<rparr>"

definition local_poster_movie :: movie where
  "local_poster_movie =
     bare_movie\<lparr>poster_image := Some (asc ''/media/p.jpg''), poster_url := Some (asc ''http://x/p.jpg'')\<rparr>"

definition external_poster_movie :: movie where
  "external_poster_movie = bare_movie\<lparr>poster_image := Some [], poster_url := Some (asc ''http://x/p.jpg'')\<rparr>"

definition counted_genre :: "int \<Rightarrow> genre" where
  "counted_genre c = \<lparr>genre_id = 1, name = asc ''drama'', movies_count = Some c\<rparr>"

definition bare_genre :: genre where
  "bare_genre = \<lparr>genre_id = 2, name = asc ''western'', movies_count = None\<rparr>"

definition eleven_genres :: "genre list" where
  "eleven_genres =
     [counted_genre 1, counted_genre 1, counted_genre 1, counted_genre 1, counted_genre 1,
      counted_genre 1, counted_genre 1, counted_genre 1, counted_genre 1, counted_genre 1,
      counted_genre 2]"

definition big_homepage :: homepage_data where
  "big_homepage =
     \<lparr>top_movies = replicate 9 rated_movie, popular_genres = eleven_genres,
      new_releases = replicate 7 bare_movie, message = None\<rparr>"

definition genres_only_homepage :: homepage_data where
  "genres_only_homepage =
     \<lparr>top_movies = [], popular_genres = [bare_genre], new_releases = [], message = None\<rparr>"

definition two_genres :: "genre list" where
  "two_genres = [counted_genre 23, counted_genre 80]"

section \<open>Properties of the fetch lifecycle\<close>

text \<open>
  C1. Whatever the failure and whatever the state it arrives in, a rejected fetch leaves
  the spinner for the alert, whose message is the one fixed text; the retry button is then
  on the screen, and clicking it shows the spinner again and sends exactly one request.
\<close>

theorem failed_fetch_shows_fixed_message_and_retry:
  "view (fetch_settle tok (Rejected e) s) = ErrorAlert ERROR_MESSAGE \<and>
   (\<exists>s'. click_retry (fetch_settle tok (Rejected e) s) = Some s' \<and>
      view s' = Spinner \<and>
      issued s' = Suc (issued (fetch_settle tok (Rejected e) s)) \<and>
      pending s' = pending (fetch_settle tok (Rejected e) s) @ [issued s])"
  by (simp add: view_def click_retry_def fetch_begin_def ERROR_MESSAGE_def)




text \<open>
  C6, counterexample. With one genre and no movies the fourth counter shows 0, not the
  sum 1 of the three lengths.
\<close>

theorem total_counter_skips_genres:
  "counters (Some genres_only_homepage) = (0, 1, 0, 0) \<and>
   snd (snd (snd (counters (Some genres_only_homepage)))) \<noteq>
     length (top_movies genres_only_homepage) + length (popular_genres genres_only_homepage)
       + length (new_releases genres_only_homepage)"
  by (simp add: counters_def opt_length_def genres_only_homepage_def)

text \<open>
  C6, as amended. The first three counters are the lengths of \<open>top_movies\<close>,
  \<open>popular_genres\<close> and \<open>new_releases\<close>; the fourth is the number of movies, the
  length of \<open>top_movies\<close> plus the length of \<open>new_releases\<close>.
\<close>

theorem counters_are_lengths:
  "counters (Some d) =
     (length (top_movies d), length (popular_genres d), length (new_releases d),
      length (top_movies d) + length (new_releases d))"
  by (simp add: counters_def opt_length_def)

section \<open>Properties of binary64 rounding\<close>

lemma bits_bounds: "0 < n \<Longrightarrow> 2 ^ (bits n - 1) \<le> n \<and> n < 2 ^ bits n"
proof (induction n rule: bits.induct)
  case (1 n)
  show ?case
  proof (cases "n div 2 = 0")
    case True
    with "1.prems" have "n = 1" by auto
    then show ?thesis by (simp add: bits.simps)
  next
    case False
    then have h: "0 < n div 2" by simp
    with "1.prems" "1.IH" have ih: "2 ^ (bits (n div 2) - 1) \<le> n div 2" "n div 2 < 2 ^ bits (n div 2)"
      by auto
    from h have pos: "0 < bits (n div 2)" by (simp add: bits.simps [of "n div 2"])
    from "1.prems" have b: "bits n = Suc (bits (n div 2))" by (simp add: bits.simps [of n])
    from pos have e: "2 ^ bits (n div 2) = (2::nat) * 2 ^ (bits (n div 2) - 1)"
      by (cases "bits (n div 2)") simp_all
    from ih(1) have "2 * 2 ^ (bits (n div 2) - 1) \<le> n" by linarith
    moreover from ih(2) have "n < 2 * 2 ^ bits (n div 2)" by linarith
    ultimately show ?thesis by (simp add: b e)
  qed
qed

lemma binade_le:
  assumes "0 < x"
  shows "2 powi binade x \<le> x"
proof (cases "1 \<le> x")
  case True
  let ?n = "nat \<lfloor>x\<rfloor>"
  from True have n: "0 < ?n" by simp
  then have b: "2 ^ (bits ?n - 1) \<le> ?n" using bits_bounds by blast
  have "(2::rat) ^ (bits ?n - 1) = of_nat (2 ^ (bits ?n - 1))" by simp
  also from b have "\<dots> \<le> of_nat ?n" by (simp only: of_nat_le_iff)
  also from True have "\<dots> \<le> x" by simp
  finally have le: "(2::rat) ^ (bits ?n - 1) \<le> x" .
  from n have "0 < bits ?n" by (simp add: bits.simps [of ?n])
  then have e: "int (bits ?n) - 1 = int (bits ?n - 1)" by simp
  show ?thesis unfolding binade_def using True le e by (simp only: if_True power_int_of_nat)
next
  case False
  let ?m = "nat (\<lceil>1 / x\<rceil> - 1)"
  from False assms have "1 < 1 / x" by simp
  then have c: "2 \<le> \<lceil>1 / x\<rceil>" by linarith
  then have m: "0 < ?m" by simp
  then have "?m < 2 ^ bits ?m" using bits_bounds by blast
  then have lt: "int ?m < int (2 ^ bits ?m)" by (simp only: of_nat_less_iff)
  from c have "0 \<le> \<lceil>1 / x\<rceil> - 1" by linarith
  then have eq: "int ?m = \<lceil>1 / x\<rceil> - 1" by (rule nat_0_le)
  from lt have "\<lceil>1 / x\<rceil> - 1 < int (2 ^ bits ?m)" unfolding eq .
  then have ci: "\<lceil>1 / x\<rceil> \<le> int (2 ^ bits ?m)" by linarith
  have "1 / x \<le> of_int \<lceil>1 / x\<rceil>" by (rule le_of_int_ceiling)
  also from ci have "(of_int \<lceil>1 / x\<rceil> :: rat) \<le> of_int (int (2 ^ bits ?m))"
    by (simp only: of_int_le_iff)
  also have "(of_int (int (2 ^ bits ?m)) :: rat) = 2 ^ bits ?m" by simp
  finally have "1 / x \<le> 2 ^ bits ?m" .
  with assms have "1 / 2 ^ bits ?m \<le> x"
    by (simp add: field_simps)
  then show ?thesis unfolding binade_def using False
    by (simp only: if_False power_int_minus_divide power_int_of_nat)
qed

lemma round_half_even_err: "\<bar>of_int (round_half_even y) - y\<bar> \<le> 1 / 2"
proof -
  have "of_int \<lfloor>y\<rfloor> \<le> y" "y < of_int \<lfloor>y\<rfloor> + 1" by linarith+
  then show ?thesis
    by (auto simp: round_half_even_def Let_def)
qed

lemma fl64_abs_err: "\<bar>fl64 x - x\<bar> \<le> \<bar>x\<bar> / 2 ^ 53"
proof (cases "x = 0")
  case True
  then show ?thesis by (simp add: fl64_def)
next
  case False
  let ?a = "\<bar>x\<bar>"
  let ?ulp = "(2::rat) powi (binade ?a - 52)"
  let ?r = "of_int (round_half_even (?a / ?ulp)) :: rat"
  have up: "0 < ?ulp" by simp
  from False have a: "0 < ?a" by simp
  have f: "fl64 x = sgn x * (?r * ?ulp)" using False by (simp add: fl64_def Let_def)
  have x: "x = sgn x * ?a" by (simp add: mult_sgn_abs)
  have "fl64 x - x = sgn x * (?r * ?ulp - ?a)"
    by (subst f, subst (3) x) (simp only: right_diff_distrib)
  then have "\<bar>fl64 x - x\<bar> = \<bar>?r * ?ulp - ?a\<bar>"
    using False by (simp add: abs_mult abs_sgn_eq)
  also have "?r * ?ulp - ?a = (?r - ?a / ?ulp) * ?ulp" using up by (simp add: field_simps)
  also have "\<bar>(?r - ?a / ?ulp) * ?ulp\<bar> = \<bar>?r - ?a / ?ulp\<bar> * ?ulp" using up by (simp add: abs_mult)
  also have "\<dots> \<le> 1 / 2 * ?ulp"
    using round_half_even_err [of "?a / ?ulp"] up by (intro mult_right_mono) simp_all
  also have "1 / 2 * ?ulp = 2 powi binade ?a / 2 ^ 53"
    by (simp add: power_int_diff)
  also have "\<dots> \<le> ?a / 2 ^ 53"
    using binade_le [OF a] by (simp add: divide_right_mono)
  finally show ?thesis .
qed


lemma percent_err: "\<bar>fl64 (fl64 y * 100) - 100 * y\<bar> \<le> 100 * \<bar>y\<bar> / 2 ^ 51"
proof -
  let ?f = "fl64 y"
  let ?p = "fl64 (?f * 100)"
  have e1: "\<bar>?f - y\<bar> \<le> \<bar>y\<bar> / 2 ^ 53" by (rule fl64_abs_err)
  have e2: "\<bar>?p - ?f * 100\<bar> \<le> \<bar>?f * 100\<bar> / 2 ^ 53" by (rule fl64_abs_err)
  have "\<bar>?f\<bar> \<le> \<bar>y\<bar> + \<bar>?f - y\<bar>" by linarith
  with e1 have f: "\<bar>?f\<bar> \<le> \<bar>y\<bar> + \<bar>y\<bar> / 2 ^ 53" by linarith
  have "\<bar>y\<bar> / 2 ^ 53 \<le> \<bar>y\<bar>" by (simp add: field_simps)
  with f have f2: "\<bar>?f\<bar> \<le> 2 * \<bar>y\<bar>" by linarith
  have "\<bar>?f * 100\<bar> = 100 * \<bar>?f\<bar>" by (simp add: abs_mult)
  with e2 have "\<bar>?p - ?f * 100\<bar> \<le> 100 * \<bar>?f\<bar> / 2 ^ 53" by simp
  also from f2 have "\<dots> \<le> 100 * (2 * \<bar>y\<bar>) / 2 ^ 53"
    by (intro divide_right_mono mult_left_mono) simp_all
  finally have a: "\<bar>?p - ?f * 100\<bar> \<le> 200 * \<bar>y\<bar> / 2 ^ 53" by simp
  from e1 have b: "\<bar>?f * 100 - 100 * y\<bar> \<le> 100 * \<bar>y\<bar> / 2 ^ 53" by linarith
  have "\<bar>?p - 100 * y\<bar> \<le> \<bar>?p - ?f * 100\<bar> + \<bar>?f * 100 - 100 * y\<bar>" by linarith
  with a b have "\<bar>?p - 100 * y\<bar> \<le> 300 * \<bar>y\<bar> / 2 ^ 53" by linarith
  also have "\<dots> \<le> 100 * \<bar>y\<bar> / 2 ^ 51" by (simp add: field_simps)
  finally show ?thesis .
qed

lemma floor_rat_numeral: "\<lfloor>numeral a / numeral b :: rat\<rfloor> = numeral a div numeral b"
  using floor_divide_of_int_eq [of "numeral a" "numeral b", where ?'a = rat] by simp

lemma fl64_half_percent: "fl64 (fl64 (1 / 2) * 100) = 50"
  by code_simp

lemma fl64_23_80_percent: "fl64 (fl64 (23 / 80) * 100) = 8092405580431359 / 281474976710656"
  by code_simp

lemma fl64_full_percent: "fl64 (fl64 1 * 100) = 100"
  by code_simp

lemma toFixed1_28_7: "toFixed1 sample_env (8092405580431359 / 281474976710656) = asc ''28.7''"
  by (simp add: toFixed1_def Let_def floor_rat_numeral show_nat.simps asc_def)

lemma toFixed1_100: "toFixed1 sample_env 100 = asc ''100.0''"
  by (simp add: toFixed1_def Let_def floor_rat_numeral show_nat.simps asc_def)

section \<open>Properties of the widgets\<close>

lemma render_top_from_length:
  "render_top_from env i ms = Inr vs \<Longrightarrow> length vs = length ms"
  by (induction ms arbitrary: i vs) (auto split: sum.splits)

lemma length_concat_replicate: "length (concat (replicate k s)) = k * length s"
  by (induction k) simp_all

lemma renderStars_fits:
  assumes "0 \<le> r" and "spec_star_count r \<le> max_string_length env"
  shows "renderStars env r = Inr (concat (replicate (spec_star_count r) STAR))"
proof -
  from assms(1) have f: "0 \<le> \<lfloor>r\<rfloor>" by simp
  from assms(2) have fit: "nat \<lfloor>r\<rfloor> \<le> max_string_length env"
    by (simp add: spec_star_count_def split: if_splits)
  from f fit have rep: "js_repeat env STAR \<lfloor>r\<rfloor> = Inr (concat (replicate (nat \<lfloor>r\<rfloor>) STAR))"
    by (simp add: js_repeat_def STAR_def)
  from assms(1) have rem: "js_rem1 r = frac r" by (simp add: js_rem1_def frac_def)
  show ?thesis
  proof (cases "1 / 2 \<le> frac r")
    case True
    with assms(2) have "Suc (nat \<lfloor>r\<rfloor>) \<le> max_string_length env"
      by (simp add: spec_star_count_def)
    then have "js_append env (concat (replicate (nat \<lfloor>r\<rfloor>) STAR)) STAR =
        Inr (concat (replicate (Suc (nat \<lfloor>r\<rfloor>)) STAR))"
      by (simp add: js_append_def length_concat_replicate STAR_def replicate_append_same)
    with True rep rem show ?thesis
      by (simp add: renderStars_def Let_def spec_star_count_def)
  next
    case False
    with rep rem show ?thesis
      by (simp add: renderStars_def Let_def spec_star_count_def)
  qed
qed

lemma renderStars_throws:
  assumes "r < 0 \<or> max_string_length env < spec_star_count r"
  shows "renderStars env r = Inl RangeError"
proof (cases "r < 0")
  case True
  then have "\<lfloor>r\<rfloor> < 0" by simp
  then show ?thesis by (simp add: renderStars_def js_repeat_def Let_def)
next
  case False
  with assms have big: "max_string_length env < spec_star_count r" by simp
  from False have rem: "js_rem1 r = frac r" by (simp add: js_rem1_def frac_def)
  show ?thesis
  proof (cases "max_string_length env < nat \<lfloor>r\<rfloor>")
    case True
    then show ?thesis by (simp add: renderStars_def js_repeat_def Let_def STAR_def)
  next
    case fits: False
    with big have h: "1 / 2 \<le> frac r" and eq: "max_string_length env < Suc (nat \<lfloor>r\<rfloor>)"
      by (auto simp: spec_star_count_def split: if_splits)
    from False have "0 \<le> \<lfloor>r\<rfloor>" by simp
    with fits have rep: "js_repeat env STAR \<lfloor>r\<rfloor> = Inr (concat (replicate (nat \<lfloor>r\<rfloor>) STAR))"
      by (simp add: js_repeat_def STAR_def)
    from eq have "js_append env (concat (replicate (nat \<lfloor>r\<rfloor>) STAR)) STAR = Inl RangeError"
      by (simp add: js_append_def length_concat_replicate STAR_def)
    with rep rem h show ?thesis by (simp add: renderStars_def Let_def)
  qed
qed

lemma rating_of_throws_iff:
  "(\<exists>e. rating_of env m = Inl e) \<longleftrightarrow> bad_rating env m"
proof (cases "avg_rating m")
  case None
  then show ?thesis by (simp add: rating_of_def)
next
  case (Some r)
  show ?thesis
  proof (cases "r < 0 \<or> max_string_length env < spec_star_count r")
    case True
    then have "renderStars env r = Inl RangeError" by (rule renderStars_throws)
    moreover from True have "r \<noteq> 0" by (auto simp: spec_star_count_def)
    ultimately show ?thesis using Some True by (simp add: rating_of_def)
  next
    case False
    then have "renderStars env r = Inr (concat (replicate (spec_star_count r) STAR))"
      by (intro renderStars_fits) simp_all
    with Some False show ?thesis by (simp add: rating_of_def)
  qed
qed

lemma renderTopItem_throws_iff:
  "(\<exists>e. renderTopItem env i m = Inl e) \<longleftrightarrow> bad_rating env m"
  using rating_of_throws_iff [of env m]
  by (auto simp: renderTopItem_def split: sum.splits)

lemma render_top_from_throws_iff:
  "(\<exists>e. render_top_from env i ms = Inl e) \<longleftrightarrow> (\<exists>m\<in>set ms. bad_rating env m)"
proof (induction ms arbitrary: i)
  case Nil
  show ?case by simp
next
  case (Cons m ms)
  show ?case
  proof (cases "renderTopItem env i m")
    case (Inl e)
    then have "bad_rating env m" using renderTopItem_throws_iff [of env i m] by blast
    with Inl show ?thesis by auto
  next
    case (Inr v)
    then have "\<not> bad_rating env m" using renderTopItem_throws_iff [of env i m] by auto
    moreover have "(\<exists>e. render_top_from env (Suc i) ms = Inl e) \<longleftrightarrow> (\<exists>m\<in>set ms. bad_rating env m)"
      by (rule Cons.IH)
    ultimately show ?thesis using Inr by (auto split: sum.splits)
  qed
qed

lemma TopMoviesWidget_throws_iff:
  "(\<exists>e. TopMoviesWidget env ms = Inl e) \<longleftrightarrow> (\<exists>m\<in>set (take 8 ms). bad_rating env m)"
  unfolding TopMoviesWidget_def by (rule render_top_from_throws_iff)


lemma PopularGenresWidget_rows:
  "length gs \<le> max_arguments env \<Longrightarrow>
   PopularGenresWidget env gs =
     Inr (map (\<lambda>(index, g). renderGenreItem env (Math_max (map count_or_0 gs)) index g)
            (enumerate 0 (take 10 gs)))"
  by (simp add: PopularGenresWidget_def maxMoviesCount_def)

lemma progress_enumerate:
  "map g_progress (map (\<lambda>(index, g). renderGenreItem env mx index g) (enumerate n xs)) =
   map (progressPercent mx) xs"
  by (induction xs arbitrary: n) (auto simp: renderGenreItem_def)

lemma Math_max_Max: "xs \<noteq> [] \<Longrightarrow> Math_max xs = Some (Max (set xs))"
proof (induction xs)
  case Nil then show ?case by simp
next
  case (Cons x xs)
  show ?case
  proof (cases "xs = []")
    case True then show ?thesis by simp
  next
    case False
    with Cons.IH have "Math_max xs = Some (Max (set xs))" by simp
    with False show ?thesis by simp
  qed
qed

lemma star_count_4_5: "spec_star_count (9 / 2) = 5"
proof -
  have "\<lfloor>9 / 2 :: rat\<rfloor> = 4" by linarith
  then show ?thesis by (simp add: spec_star_count_def frac_def)
qed

lemma rated_movie_avg: "avg_rating rated_movie = Some (9 / 2)"
  by (simp add: rated_movie_def)

lemma sample_rating_renders:
  assumes "avg_rating m = Some (9 / 2)"
  shows "\<not> bad_rating sample_env m"
proof
  assume "bad_rating sample_env m"
  then obtain r where a: "avg_rating m = Some r"
    and b: "r < 0 \<or> max_string_length sample_env < spec_star_count r" by blast
  from a assms have r: "r = 9 / 2" by (metis option.inject)
  from b have "9 / 2 < (0::rat) \<or> max_string_length sample_env < spec_star_count (9 / 2)"
    unfolding r .
  then show False by (simp add: star_count_4_5 sample_env_def)
qed

text \<open>
  C3. Whenever the page renders, the ranked list has at most 8 entries, the progress list
  at most 10 and the grid at most 6, whatever the lengths of the three fetched lists; each
  shows the first entries of its list up to the cap.
\<close>

theorem widgets_respect_display_caps:
  "render_home env d = Inr v \<Longrightarrow>
     length (top_items v) \<le> 8 \<and> length (genre_items v) \<le> 10 \<and> length (release_items v) \<le> 6 \<and>
     length (top_items v) = min 8 (length (opt_list d top_movies)) \<and>
     length (genre_items v) = min 10 (length (opt_list d popular_genres)) \<and>
     length (release_items v) = min 6 (length (opt_list d new_releases))"
  by (auto simp: render_home_def TopMoviesWidget_def PopularGenresWidget_def NewReleasesWidget_def
      split: sum.splits dest: render_top_from_length)

text \<open>C3 on a homepage with 9 top movies, 11 genres and 7 new releases.\<close>

theorem widgets_respect_display_caps_witness:
  "\<exists>v. render_home sample_env (Some big_homepage) = Inr v \<and>
       length (top_items v) = 8 \<and> length (genre_items v) = 10 \<and> length (release_items v) = 6"
proof -
  have "\<not> bad_rating sample_env rated_movie"
    using rated_movie_avg by (rule sample_rating_renders)
  then have "\<not> (\<exists>m\<in>set (take 8 (replicate 9 rated_movie)). bad_rating sample_env m)"
    by (auto dest: in_set_takeD)
  then obtain tops where "TopMoviesWidget sample_env (replicate 9 rated_movie) = Inr tops"
    using TopMoviesWidget_throws_iff [of sample_env "replicate 9 rated_movie"]
    by (cases "TopMoviesWidget sample_env (replicate 9 rated_movie)") auto
  moreover have "length eleven_genres \<le> max_arguments sample_env"
    by (simp add: eleven_genres_def sample_env_def)
  then obtain rows where "PopularGenresWidget sample_env eleven_genres = Inr rows"
    using PopularGenresWidget_rows by blast
  ultimately obtain v where v: "render_home sample_env (Some big_homepage) = Inr v"
    by (simp add: render_home_def opt_list_def big_homepage_def)
  have "length (opt_list (Some big_homepage) top_movies) = 9"
    "length (opt_list (Some big_homepage) popular_genres) = 11"
    "length (opt_list (Some big_homepage) new_releases) = 7"
    by (simp_all add: opt_list_def big_homepage_def eleven_genres_def)
  with widgets_respect_display_caps [OF v] v show ?thesis by simp
qed

text \<open>
  C4, counterexample. Of eleven genres, the first ten count one movie each and the last
  counts two. Every row displayed shows 50 per cent, though the largest count among the
  ten rows displayed is 1, which would give 100.
\<close>

theorem progress_against_displayed_max_fails:
  "map_sum id (map g_progress) (PopularGenresWidget sample_env eleven_genres)
     = Inr [50, 50, 50, 50, 50, 50, 50, 50, 50, 50] \<and>
   100 * (of_int (count_or_0 (hd eleven_genres)) :: rat)
     / of_int (Max (set (map count_or_0 (take 10 eleven_genres)))) = 100"
  by (simp add: PopularGenresWidget_def eleven_genres_def maxMoviesCount_def counted_genre_def
      count_or_0_def renderGenreItem_def progressPercent_def sample_env_def fl64_half_percent)

text \<open>
  C4, as amended. For a list of genres that the engine can spread into one call, with
  counts of at most 53 bits, the percentage of each displayed row is the binary64 value of
  (count / M) * 100, the quotient and the product each rounded to the nearest double,
  where a missing count is 0 and M is the largest count among all the genres given to the
  widget, displayed or not; it is 0 when M is not positive. That value is within a
  relative error of \<open>2^-51\<close> of the exact 100 * count / M.
\<close>

theorem progress_against_overall_max:
  assumes "length gs \<le> max_arguments env"
    and "\<forall>g\<in>set gs. \<bar>count_or_0 g\<bar> \<le> 2 ^ 53"
  shows "\<exists>rows. PopularGenresWidget env gs = Inr rows \<and>
           map g_progress rows =
             map (\<lambda>g. if 0 < Max (set (map count_or_0 gs))
                       then fl64 (fl64 (of_int (count_or_0 g) / of_int (Max (set (map count_or_0 gs)))) * 100)
                       else 0) (take 10 gs) \<and>
           list_all2 (\<lambda>row g. \<bar>g_progress row - exact_percent gs g\<bar> \<le> \<bar>exact_percent gs g\<bar> / 2 ^ 51)
             rows (take 10 gs)"
proof -
  let ?M = "Max (set (map count_or_0 gs))"
  let ?mx = "Math_max (map count_or_0 gs)"
  let ?rows = "map (\<lambda>(index, g). renderGenreItem env ?mx index g) (enumerate 0 (take 10 gs))"
  from assms(1) have w: "PopularGenresWidget env gs = Inr ?rows" by (rule PopularGenresWidget_rows)
  have p: "map g_progress ?rows = map (progressPercent ?mx) (take 10 gs)"
    by (rule progress_enumerate)
  have pp: "progressPercent ?mx g =
      (if 0 < ?M then fl64 (fl64 (of_int (count_or_0 g) / of_int ?M) * 100) else 0)"
    if "g \<in> set (take 10 gs)" for g
  proof -
    from that have "gs \<noteq> []" by auto
    then have "?mx = Some ?M" by (simp add: Math_max_Max)
    then show ?thesis by (simp add: progressPercent_def)
  qed
  then have eq: "map (progressPercent ?mx) (take 10 gs) =
      map (\<lambda>g. if 0 < ?M then fl64 (fl64 (of_int (count_or_0 g) / of_int ?M) * 100) else 0) (take 10 gs)"
    by simp
  have err: "\<bar>progressPercent ?mx g - exact_percent gs g\<bar> \<le> \<bar>exact_percent gs g\<bar> / 2 ^ 51"
    if "g \<in> set (take 10 gs)" for g
  proof (cases "0 < ?M")
    case True
    let ?y = "(of_int (count_or_0 g) :: rat) / of_int ?M"
    have "\<bar>fl64 (fl64 ?y * 100) - 100 * ?y\<bar> \<le> 100 * \<bar>?y\<bar> / 2 ^ 51" by (rule percent_err)
    moreover have "exact_percent gs g = 100 * ?y" using True by (simp add: exact_percent_def)
    moreover have "\<bar>100 * ?y\<bar> = 100 * \<bar>?y\<bar>" by (simp add: abs_mult)
    ultimately show ?thesis using True pp [OF that] by simp
  next
    case False
    then show ?thesis using pp [OF that] by (simp add: exact_percent_def)
  qed
  have "list_all2 (\<lambda>row g. \<bar>g_progress row - exact_percent gs g\<bar> \<le> \<bar>exact_percent gs g\<bar> / 2 ^ 51)
          ?rows (take 10 gs)"
  proof -
    have "list_all2 (\<lambda>x g. \<bar>x - exact_percent gs g\<bar> \<le> \<bar>exact_percent gs g\<bar> / 2 ^ 51)
            (map (progressPercent ?mx) (take 10 gs)) (take 10 gs)"
      using err by (simp add: list_all2_map1 list_all2_same)
    then have "list_all2 (\<lambda>x g. \<bar>x - exact_percent gs g\<bar> \<le> \<bar>exact_percent gs g\<bar> / 2 ^ 51)
            (map g_progress ?rows) (take 10 gs)"
      by (simp only: p)
    then show ?thesis by (simp only: list_all2_map1)
  qed
  with w p eq show ?thesis by (intro exI [of _ ?rows]) (simp only: simp_thms)
qed

text \<open>
  The amended C4 on counts 23 and 80: the first row holds 28.749999999999996 and shows
  28.7, where exact arithmetic gives 28.75.
\<close>

theorem progress_against_overall_max_witness:
  "map_sum id (map g_progress) (PopularGenresWidget sample_env two_genres)
     = Inr [8092405580431359 / 281474976710656, 100] \<and>
   map_sum id (map g_percent_text) (PopularGenresWidget sample_env two_genres)
     = Inr [asc ''28.7'' @ PERCENT_SUFFIX, asc ''100.0'' @ PERCENT_SUFFIX] \<and>
   map (exact_percent two_genres) two_genres = [115 / 4, 100]"
proof -
  have l: "length two_genres \<le> max_arguments sample_env"
    by (simp add: two_genres_def sample_env_def)
  have c: "\<forall>g\<in>set two_genres. \<bar>count_or_0 g\<bar> \<le> 2 ^ 53"
    by (simp add: two_genres_def counted_genre_def count_or_0_def)
  have mx: "Max (set (map count_or_0 two_genres)) = 80"
    by (simp add: two_genres_def counted_genre_def count_or_0_def)
  have t: "take 10 two_genres = two_genres" by (simp add: two_genres_def)
  from progress_against_overall_max [OF l c] obtain rows where
    w: "PopularGenresWidget sample_env two_genres = Inr rows" and
    p: "map g_progress rows =
          map (\<lambda>g. if 0 < Max (set (map count_or_0 two_genres))
                    then fl64 (fl64 (of_int (count_or_0 g) / of_int (Max (set (map count_or_0 two_genres)))) * 100)
                    else 0) (take 10 two_genres)"
    by blast
  from p have "map g_progress rows = [8092405580431359 / 281474976710656, 100]"
    unfolding mx t
    by (simp add: two_genres_def counted_genre_def count_or_0_def fl64_23_80_percent fl64_full_percent)
  with w have 1: "map_sum id (map g_progress) (PopularGenresWidget sample_env two_genres)
     = Inr [8092405580431359 / 281474976710656, 100]" by simp
  have 2: "map_sum id (map g_percent_text) (PopularGenresWidget sample_env two_genres)
     = Inr [asc ''28.7'' @ PERCENT_SUFFIX, asc ''100.0'' @ PERCENT_SUFFIX]"
    using l
    by (simp add: PopularGenresWidget_def maxMoviesCount_def two_genres_def counted_genre_def
        count_or_0_def renderGenreItem_def progressPercent_def
        fl64_23_80_percent fl64_full_percent toFixed1_28_7 toFixed1_100)
  have 3: "map (exact_percent two_genres) two_genres = [115 / 4, 100]"
    unfolding exact_percent_def mx
    by (simp add: two_genres_def counted_genre_def count_or_0_def)
  from 1 2 3 show ?thesis by (intro conjI)
qed





lemma nearest_tenth:
  assumes "0 \<le> (r::rat)"
  shows "\<bar>r - of_nat (nat \<lfloor>r * 10 + 1 / 2\<rfloor>) / 10\<bar> \<le> 1 / 20"
proof -
  let ?z = "\<lfloor>r * 10 + 1 / 2\<rfloor>"
  from assms have "0 \<le> ?z" by simp
  then have n: "(of_nat (nat ?z) :: rat) = of_int ?z" by simp
  have "of_int ?z \<le> r * 10 + 1 / 2" "r * 10 + 1 / 2 < of_int ?z + 1"
    by linarith+
  then show ?thesis unfolding n by linarith
qed

text \<open>
  C8, counterexample. A movie whose \<open>avg_rating\<close> is present and equal to 0 gets no
  stars and no label: \<open>0 && ...\<close> is 0, which is printed as it is, where the claim
  expects no glyph and the label \<open>0.0 (3)\<close>.
\<close>

theorem zero_rating_prints_bare_zero:
  "avg_rating zero_rated_movie = Some 0 \<and>
   rating_of sample_env zero_rated_movie = Inr BareZero \<and>
   rating_label sample_env 0 (Some 3) = asc ''0.0 (3)'' \<and>
   rating_of sample_env zero_rated_movie \<noteq> Inr (RatingBlock [] (asc ''0.0 (3)''))"
  by (simp add: zero_rated_movie_def bare_movie_def rating_of_def rating_label_def toFixed1_def
      js_number_text_def show_int_def show_nat.simps asc_def)

text \<open>
  C8, as amended. For every movie whose \<open>avg_rating\<close> is positive and below \<open>10^21\<close>,
  whose glyphs fit in a string of the engine, and whose \<open>ratings_count\<close> is missing or
  at most \<open>2^53\<close> in magnitude, the stars are \<open>floor(avg_rating)\<close> glyphs plus one more
  exactly when the fractional part is at least one half, and the label is the nearest
  number with one decimal, then \<open>ratings_count\<close> in parentheses (empty parentheses when it
  is missing).
\<close>

theorem positive_rating_stars_and_label:
  assumes "avg_rating m = Some r" and "0 < r" and "r < 10 ^ 21"
    and "nat \<lfloor>r\<rfloor> + (if 1 / 2 \<le> frac r then 1 else 0) \<le> max_string_length env"
    and "\<forall>c. ratings_count m = Some c \<longrightarrow> \<bar>c\<bar> \<le> 2 ^ 53"
  shows "\<exists>n. \<bar>r - of_nat n / 10\<bar> \<le> 1 / 20 \<and>
           rating_of env m =
             Inr (RatingBlock
                    (concat (replicate (nat \<lfloor>r\<rfloor> + (if 1 / 2 \<le> frac r then 1 else 0)) STAR))
                    (show_nat (n div 10) @ asc ''.'' @ show_nat (n mod 10) @ asc '' ('' @
                       (case ratings_count m of None \<Rightarrow> [] | Some c \<Rightarrow> show_int c) @ asc '')''))"
proof -
  let ?n = "nat \<lfloor>r * 10 + 1 / 2\<rfloor>"
  from assms(2) have "\<bar>r - of_nat ?n / 10\<bar> \<le> 1 / 20"
    by (intro nearest_tenth) simp
  moreover from assms(2,4) have "renderStars env r =
      Inr (concat (replicate (nat \<lfloor>r\<rfloor> + (if 1 / 2 \<le> frac r then 1 else 0)) STAR))"
    using renderStars_fits [of r env] by (simp add: spec_star_count_def)
  moreover from assms(2,3) have "toFixed1 env r = show_nat (?n div 10) @ asc ''.'' @ show_nat (?n mod 10)"
    by (simp add: toFixed1_def Let_def abs_of_pos)
  moreover from assms(5) have "(case ratings_count m of None \<Rightarrow> [] | Some c \<Rightarrow> js_number_text env c)
      = (case ratings_count m of None \<Rightarrow> [] | Some c \<Rightarrow> show_int c)"
    by (simp add: js_number_text_def split: option.splits)
  ultimately show ?thesis using assms(1,2)
    by (intro exI [of _ ?n]) (simp add: rating_of_def rating_label_def)
qed

text \<open>The amended C8 at \<open>avg_rating = 4.5\<close> with 120 ratings: five glyphs, label \<open>4.5 (120)\<close>.\<close>

theorem positive_rating_stars_and_label_witness:
  "avg_rating rated_movie = Some (9 / 2) \<and>
   rating_of sample_env rated_movie =
     Inr (RatingBlock [11088, 11088, 11088, 11088, 11088] (asc ''4.5 (120)''))"
proof -
  have a: "avg_rating rated_movie = Some (9 / 2)" by (rule rated_movie_avg)
  have fl: "\<lfloor>9 / 2 :: rat\<rfloor> = 4" by linarith
  have fr: "frac (9 / 2 :: rat) = 1 / 2" by (simp add: frac_def fl)
  have fit: "nat \<lfloor>9 / 2 :: rat\<rfloor> + (if 1 / 2 \<le> frac (9 / 2 :: rat) then 1 else 0)
      \<le> max_string_length sample_env"
    by (simp add: fl fr sample_env_def)
  have cnt: "\<forall>c. ratings_count rated_movie = Some c \<longrightarrow> \<bar>c\<bar> \<le> 2 ^ 53"
    by (simp add: rated_movie_def)
  from positive_rating_stars_and_label [OF a _ _ fit cnt] obtain n where
    n: "\<bar>(9 / 2 :: rat) - of_nat n / 10\<bar> \<le> 1 / 20" and
    r: "rating_of sample_env rated_movie =
          Inr (RatingBlock
                 (concat (replicate (nat \<lfloor>9 / 2 :: rat\<rfloor> + (if 1 / 2 \<le> frac (9 / 2 :: rat) then 1 else 0)) STAR))
                 (show_nat (n div 10) @ asc ''.'' @ show_nat (n mod 10) @ asc '' ('' @
                    (case ratings_count rated_movie of None \<Rightarrow> [] | Some c \<Rightarrow> show_int c) @ asc '')''))"
    by auto
  from n have "(of_nat n :: rat) \<le> 91 / 2" "(89 / 2 :: rat) \<le> of_nat n"
    by linarith+
  then have "(of_nat n :: rat) < of_nat 46" "(of_nat 44 :: rat) < of_nat n" by simp_all
  then have "n < 46" "44 < n" by (simp_all only: of_nat_less_iff)
  then have n45: "n = 45" by simp
  have st: "concat (replicate 5 STAR) = [11088, 11088, 11088, 11088, 11088]"
    by (simp add: STAR_def numeral_eq_Suc)
  show ?thesis using a r
    by (simp add: n45 fl fr st rated_movie_def show_int_def show_nat.simps asc_def)
qed

text \<open>
  C9. The poster of a movie is resolved in three steps, in both movie widgets: a local
  path, when present (defined and not the empty string), is appended to the asset-server
  origin; otherwise an external URL, when present, is used as it is; otherwise the
  widget's fixed placeholder is used.
\<close>

theorem poster_three_way_precedence:
  "(\<forall>p. poster_image m = Some p \<and> p \<noteq> [] \<longrightarrow> getMovieImage ph m = ASSET_ORIGIN @ p) \<and>
   (\<forall>u. (poster_image m = None \<or> poster_image m = Some []) \<and> poster_url m = Some u \<and> u \<noteq> []
        \<longrightarrow> getMovieImage ph m = u) \<and>
   ((poster_image m = None \<or> poster_image m = Some []) \<and>
    (poster_url m = None \<or> poster_url m = Some []) \<longrightarrow> getMovieImage ph m = ph) \<and>
   r_image (renderReleaseItem env m) = getMovieImage PLACEHOLDER_NEW m \<and>
   (\<forall>v. renderTopItem env i m = Inr v \<longrightarrow> t_image v = getMovieImage PLACEHOLDER_TOP m)"
  by (auto simp: getMovieImage_def renderReleaseItem_def renderTopItem_def Let_def
      split: sum.splits)

text \<open>C9 on a movie with both references, one with only an external URL, and one with none.\<close>

theorem poster_three_way_precedence_witness:
  "getMovieImage PLACEHOLDER_NEW local_poster_movie = asc ''http://localhost:8000/media/p.jpg'' \<and>
   getMovieImage PLACEHOLDER_NEW external_poster_movie = asc ''http://x/p.jpg'' \<and>
   getMovieImage PLACEHOLDER_NEW bare_movie = PLACEHOLDER_NEW \<and>
   r_image (renderReleaseItem sample_env bare_movie) = PLACEHOLDER_NEW \<and>
   (\<exists>v. renderTopItem sample_env 0 bare_movie = Inr v \<and> t_image v = PLACEHOLDER_TOP)"
proof -
  have l: "poster_image local_poster_movie = Some (asc ''/media/p.jpg'') \<and> asc ''/media/p.jpg'' \<noteq> []"
    by (simp add: local_poster_movie_def asc_def)
  have e: "(poster_image external_poster_movie = None \<or> poster_image external_poster_movie = Some []) \<and>
           poster_url external_poster_movie = Some (asc ''http://x/p.jpg'') \<and> asc ''http://x/p.jpg'' \<noteq> []"
    by (simp add: external_poster_movie_def asc_def)
  have b: "(poster_image bare_movie = None \<or> poster_image bare_movie = Some []) \<and>
           (poster_url bare_movie = None \<or> poster_url bare_movie = Some [])"
    by (simp add: bare_movie_def)
  have t: "renderTopItem sample_env 0 bare_movie = Inr
             \<lparr>rank = 1, t_image = getMovieImage PLACEHOLDER_TOP bare_movie, t_title = asc ''Solaris'',
              t_subtitle = None, t_year = Some 2025, t_country = asc ''USSR'', t_rating = NoRating,
              t_genres = []\<rparr>"
    by (simp add: renderTopItem_def rating_of_def subtitle_of_def bare_movie_def sample_env_def)
  from poster_three_way_precedence [of local_poster_movie PLACEHOLDER_NEW sample_env 0] l
  have 1: "getMovieImage PLACEHOLDER_NEW local_poster_movie = ASSET_ORIGIN @ asc ''/media/p.jpg''"
    by blast
  from poster_three_way_precedence [of external_poster_movie PLACEHOLDER_NEW sample_env 0] e
  have 2: "getMovieImage PLACEHOLDER_NEW external_poster_movie = asc ''http://x/p.jpg''"
    by blast
  from poster_three_way_precedence [of bare_movie PLACEHOLDER_NEW sample_env 0] b
  have 3: "getMovieImage PLACEHOLDER_NEW bare_movie = PLACEHOLDER_NEW"
    and 4: "r_image (renderReleaseItem sample_env bare_movie) = getMovieImage PLACEHOLDER_NEW bare_movie"
    by blast+
  from poster_three_way_precedence [of bare_movie PLACEHOLDER_TOP sample_env 0] b t
  have 5: "getMovieImage PLACEHOLDER_TOP bare_movie = PLACEHOLDER_TOP"
    by blast
  from 1 have joined: "getMovieImage PLACEHOLDER_NEW local_poster_movie = asc ''http://localhost:8000/media/p.jpg''"
    by (simp add: ASSET_ORIGIN_def asc_def)
  from joined 2 3 4 5 t show ?thesis by simp
qed

section \<open>Properties of the search bar\<close>

lemma dropWhile_all_iff: "(\<forall>x\<in>set (dropWhile P xs). P x) \<longleftrightarrow> (\<forall>x\<in>set xs. P x)"
proof
  assume a: "\<forall>x\<in>set (dropWhile P xs). P x"
  have "dropWhile P xs = []"
  proof (rule ccontr)
    assume ne: "dropWhile P xs \<noteq> []"
    then have "\<not> P (hd (dropWhile P xs))" by (rule hd_dropWhile)
    moreover from ne have "hd (dropWhile P xs) \<in> set (dropWhile P xs)" by simp
    ultimately show False using a by blast
  qed
  then show "\<forall>x\<in>set xs. P x" by (simp add: dropWhile_eq_Nil_conv)
next
  assume "\<forall>x\<in>set xs. P x"
  then show "\<forall>x\<in>set (dropWhile P xs). P x" by (auto dest: set_dropWhileD)
qed

lemma trim_empty_iff: "trim s = [] \<longleftrightarrow> (\<forall>c\<in>set s. is_ws c)"
  by (simp add: trim_def dropWhile_eq_Nil_conv dropWhile_all_iff)

lemma rev_drop_take_id: "rev (dropWhile P (rev xs)) @ rev (takeWhile P (rev xs)) = xs"
proof -
  have "rev (takeWhile P (rev xs) @ dropWhile P (rev xs)) = rev (rev xs)"
    by (simp only: takeWhile_dropWhile_id)
  then show ?thesis by (simp only: rev_append rev_rev_ident)
qed

lemma trim_decompose:
  "s = takeWhile is_ws s @ trim s @ rev (takeWhile is_ws (rev (dropWhile is_ws s)))"
proof -
  have "trim s @ rev (takeWhile is_ws (rev (dropWhile is_ws s))) = dropWhile is_ws s"
    unfolding trim_def by (rule rev_drop_take_id)
  then show ?thesis by simp
qed

lemma trim_ends:
  assumes "trim s \<noteq> []"
  shows "\<not> is_ws (hd (trim s))" and "\<not> is_ws (last (trim s))"
proof -
  let ?d = "dropWhile is_ws s"
  let ?e = "dropWhile is_ws (rev ?d)"
  from assms have e: "?e \<noteq> []" by (simp add: trim_def)
  have d: "?d \<noteq> []"
  proof
    assume "?d = []"
    with e show False by simp
  qed
  have "\<not> is_ws (hd ?e)" using e by (rule hd_dropWhile)
  then show "\<not> is_ws (last (trim s))" using e by (simp add: trim_def last_rev)
  have dec: "?d = trim s @ rev (takeWhile is_ws (rev ?d))"
    unfolding trim_def by (rule rev_drop_take_id [symmetric])
  have "hd ?d = hd (trim s)"
    using assms by (subst dec) simp
  moreover have "\<not> is_ws (hd ?d)" using d by (rule hd_dropWhile)
  ultimately show "\<not> is_ws (hd (trim s))" by simp
qed

text \<open>
  C10. Submitting a query that is empty or all whitespace sends no request and leaves the
  state as it was. Any other query sends exactly one request, whose \<open>q\<close> is the query
  without its leading and trailing whitespace, and sets the searching flag.
\<close>

theorem search_only_for_nonblank_query:
  "((\<forall>c\<in>set (searchQuery s). is_ws c) \<longrightarrow> handleSearch s = (s, [])) \<and>
   ((\<exists>c\<in>set (searchQuery s). \<not> is_ws c) \<longrightarrow>
      handleSearch s =
        (s\<lparr>isSearching := True\<rparr>,
         [\<lparr>q = Some (trim (searchQuery s)), genre_filter = None, type_filter = None,
           year_filter = None\<rparr>]) \<and>
      trim (searchQuery s) \<noteq> [] \<and>
      \<not> is_ws (hd (trim (searchQuery s))) \<and> \<not> is_ws (last (trim (searchQuery s))) \<and>
      (\<exists>pre suf. searchQuery s = pre @ trim (searchQuery s) @ suf \<and>
                 (\<forall>c\<in>set pre. is_ws c) \<and> (\<forall>c\<in>set suf. is_ws c)))"
proof (intro conjI impI)
  assume "\<forall>c\<in>set (searchQuery s). is_ws c"
  then show "handleSearch s = (s, [])"
    by (simp add: handleSearch_def trim_empty_iff)
next
  assume "\<exists>c\<in>set (searchQuery s). \<not> is_ws c"
  then show ne: "trim (searchQuery s) \<noteq> []" by (simp add: trim_empty_iff)
  then show "handleSearch s =
        (s\<lparr>isSearching := True\<rparr>,
         [\<lparr>q = Some (trim (searchQuery s)), genre_filter = None, type_filter = None,
           year_filter = None\<rparr>])"
    by (simp add: handleSearch_def)
  from ne show "\<not> is_ws (hd (trim (searchQuery s)))" by (rule trim_ends)
  from ne show "\<not> is_ws (last (trim (searchQuery s)))" by (rule trim_ends)
  let ?pre = "takeWhile is_ws (searchQuery s)"
  let ?suf = "rev (takeWhile is_ws (rev (dropWhile is_ws (searchQuery s))))"
  have "searchQuery s = ?pre @ trim (searchQuery s) @ ?suf" by (rule trim_decompose)
  moreover have "\<forall>c\<in>set ?pre. is_ws c" by (auto dest: set_takeWhileD)
  moreover have "\<forall>c\<in>set ?suf. is_ws c" by (auto dest: set_takeWhileD)
  ultimately show "\<exists>pre suf. searchQuery s = pre @ trim (searchQuery s) @ suf \<and>
                 (\<forall>c\<in>set pre. is_ws c) \<and> (\<forall>c\<in>set suf. is_ws c)"
    by blast
qed

text \<open>C10 on a blank query and on a query with spaces around it.\<close>

theorem search_only_for_nonblank_query_witness:
  "handleSearch \<lparr>searchQuery = asc ''  '', isSearching = False\<rparr>
     = (\<lparr>searchQuery = asc ''  '', isSearching = False\<rparr>, []) \<and>
   handleSearch \<lparr>searchQuery = asc '' dune 2 '', isSearching = False\<rparr>
     = (\<lparr>searchQuery = asc '' dune 2 '', isSearching = True\<rparr>,
        [\<lparr>q = Some (asc ''dune 2''), genre_filter = None, type_filter = None, year_filter = None\<rparr>])"
proof -
  have blank: "\<forall>c\<in>set (searchQuery \<lparr>searchQuery = asc ''  '', isSearching = False\<rparr>). is_ws c"
    by (simp add: asc_def is_ws_def)
  have nonblank: "\<exists>c\<in>set (searchQuery \<lparr>searchQuery = asc '' dune 2 '', isSearching = False\<rparr>). \<not> is_ws c"
    by (simp add: asc_def is_ws_def)
  have t: "trim (asc '' dune 2 '') = asc ''dune 2''"
    by (simp add: trim_def asc_def is_ws_def)
  from search_only_for_nonblank_query [of "\<lparr>searchQuery = asc ''  '', isSearching = False\<rparr>"] blank
  have 1: "handleSearch \<lparr>searchQuery = asc ''  '', isSearching = False\<rparr>
     = (\<lparr>searchQuery = asc ''  '', isSearching = False\<rparr>, [])"
    by blast
  from search_only_for_nonblank_query [of "\<lparr>searchQuery = asc '' dune 2 '', isSearching = False\<rparr>"] nonblank
  have 2: "handleSearch \<lparr>searchQuery = asc '' dune 2 '', isSearching = False\<rparr> =
        (\<lparr>searchQuery = asc '' dune 2 '', isSearching = False\<rparr>\<lparr>isSearching := True\<rparr>,
         [\<lparr>q = Some (trim (searchQuery \<lparr>searchQuery = asc '' dune 2 '', isSearching = False\<rparr>)),
           genre_filter = None, type_filter = None, year_filter = None\<rparr>])"
    by blast
  from 1 2 t show ?thesis by simp
qed

end
